theory Spec2Isabelle
  imports Complex_Main
begin

section \<open>Numbers, vectors and failures\<close>

text \<open>
  The optimizers of \<^verbatim>\<open>thinc/neural/optimizers.pyx\<close> work on floating-point numbers and on
  one-dimensional numpy arrays. Here a number is a \<^typ>\<open>real\<close> and an array is a list of
  reals, so rounding, infinities and NaN are outside the model. An exception of the source
  is a value of \<open>error\<close>, and a call yields an \<open>outcome\<close>: it either returns or raises, and
  in both cases the outcome carries the objects the call may have mutated, as they are at
  that moment.
\<close>

type_synonym vec = "real list"

datatype error = AssertionError | ZeroDivisionError | ValueError | KeyError

datatype 'a outcome = Returned 'a | Raised error 'a

fun is_Returned :: "'a outcome \<Rightarrow> bool" where
  "is_Returned (Returned st) = True"
| "is_Returned (Raised e st) = False"

fun state_of :: "'a outcome \<Rightarrow> 'a" where
  "state_of (Returned st) = st"
| "state_of (Raised e st) = st"

fun error_of :: "'a outcome \<Rightarrow> error option" where
  "error_of (Returned st) = None"
| "error_of (Raised e st) = Some e"

definition self_of :: "('o \<times> vec \<times> vec) outcome \<Rightarrow> 'o" where
  "self_of r = fst (state_of r)"

definition weights_of :: "('o \<times> vec \<times> vec) outcome \<Rightarrow> vec" where
  "weights_of r = fst (snd (state_of r))"

definition gradient_of :: "('o \<times> vec \<times> vec) outcome \<Rightarrow> vec" where
  "gradient_of r = snd (snd (state_of r))"

text \<open>Division of two Python floats raises \<^verbatim>\<open>ZeroDivisionError\<close> on a zero divisor.\<close>

definition py_div :: "real \<Rightarrow> real \<Rightarrow> error + real" where
  "py_div a b = (if b = 0 then Inl ZeroDivisionError else Inr (a / b))"

text \<open>
  An in-place numpy operation \<^verbatim>\<open>a op= b\<close> on one-dimensional arrays: \<open>b\<close> has the length of
  \<open>a\<close>, or it has length one and is broadcast; any other shape raises \<^verbatim>\<open>ValueError\<close> and
  leaves \<open>a\<close> as it was. The length of \<open>a\<close> never changes.
\<close>

definition np_inplace :: "(real \<Rightarrow> real \<Rightarrow> real) \<Rightarrow> vec \<Rightarrow> vec \<Rightarrow> error + vec" where
  "np_inplace f a b =
     (if length b = length a then Inr (map2 f a b)
      else if length b = 1 then Inr (map (\<lambda>x. f x (hd b)) a)
      else Inl ValueError)"

text \<open>\<^verbatim>\<open>a.fill(0)\<close>.\<close>

definition fill0 :: "vec \<Rightarrow> vec" where
  "fill0 a = replicate (length a) 0"

text \<open>
  A \<^verbatim>\<open>defaultdict(int)\<close> of update counters: a key that is absent counts as zero.
\<close>

definition counter :: "('a \<rightharpoonup> nat) \<Rightarrow> 'a \<Rightarrow> nat" where
  "counter m k = (case m k of None \<Rightarrow> 0 | Some n \<Rightarrow> n)"

section \<open>The numeric operations\<close>

text \<open>
  The optimizers reach the array kernels through \<^verbatim>\<open>self.ops\<close>. The kernels are not part of
  \<^verbatim>\<open>optimizers.pyx\<close>, so \<open>ops\<close> is a record of functions that every optimizer carries.
  A kernel mutates its array arguments in place; here it returns their new contents, or
  an error.
\<close>

record ops =
  allocate :: "nat \<Rightarrow> vec"
  clip_gradient :: "vec \<Rightarrow> real \<Rightarrow> error + vec"
  adam :: "vec \<Rightarrow> vec \<Rightarrow> vec \<Rightarrow> vec \<Rightarrow> real \<Rightarrow> real \<Rightarrow> real \<Rightarrow> real
             \<Rightarrow> error + (vec \<times> vec \<times> vec \<times> vec)"
  update_averages :: "vec \<Rightarrow> vec \<Rightarrow> nat \<Rightarrow> error + vec"

text \<open>
  An in-place kernel cannot change the length of a numpy buffer, and \<^verbatim>\<open>allocate(n)\<close>
  gives a buffer of \<open>n\<close> numbers.
\<close>

definition ops_in_place :: "ops \<Rightarrow> bool" where
  "ops_in_place p \<longleftrightarrow>
     (\<forall>n. length (allocate p n) = n) \<and>
     (\<forall>g t g'. clip_gradient p g t = Inr g' \<longrightarrow> length g' = length g) \<and>
     (\<forall>w g m1 m2 b1 b2 eps lr w' g' m1' m2'.
        adam p w g m1 m2 b1 b2 eps lr = Inr (w', g', m1', m2') \<longrightarrow>
        length w' = length w \<and> length g' = length g \<and>
        length m1' = length m1 \<and> length m2' = length m2) \<and>
     (\<forall>a w t a'. update_averages p a w t = Inr a' \<longrightarrow> length a' = length a)"

section \<open>Linear decay\<close>

definition linear_decay :: "real \<Rightarrow> real \<Rightarrow> nat \<Rightarrow> error + real" where
  "linear_decay rate decay nr_upd = py_div (rate * 1) (1 + decay * real nr_upd)"

section \<open>Running averages\<close>

text \<open>
  The last four lines of \<^verbatim>\<open>SGD.__call__\<close> and of \<^verbatim>\<open>Adam.__call__\<close> are the same: when
  \<^verbatim>\<open>self.averages\<close> is a dict, the buffer of \<open>key\<close> is allocated if absent and then
  updated by the kernel.
\<close>

definition track_averages ::
  "ops \<Rightarrow> ('k \<rightharpoonup> vec) option \<Rightarrow> vec \<Rightarrow> 'k \<Rightarrow> nat \<Rightarrow> (('k \<rightharpoonup> vec) option) outcome" where
  "track_averages p avgs weights key nr_upd =
     (case avgs of
        None \<Rightarrow> Returned None
      | Some m \<Rightarrow>
          (let m1 = (if key \<in> dom m then m else m(key \<mapsto> allocate p (length weights)));
               a = (case m1 key of None \<Rightarrow> allocate p (length weights) | Some a \<Rightarrow> a)
           in case update_averages p a weights nr_upd of
                Inl e \<Rightarrow> Raised e (Some m1)
              | Inr a' \<Rightarrow> Returned (Some (m1(key \<mapsto> a')))))"

section \<open>SGD\<close>

text \<open>A key is \<^verbatim>\<open>None\<close> or a value of \<open>'k\<close>; the dicts are indexed by \<open>'k option\<close>.\<close>

record 'k SGD =
  ops :: ops
  alpha :: real
  mu :: real
  decay :: real
  max_grad_norm :: real
  momentums :: "'k option \<rightharpoonup> vec"
  averages :: "('k option \<rightharpoonup> vec) option"
  nr_update :: "'k option \<rightharpoonup> nat"

definition SGD_init :: "ops \<Rightarrow> real \<Rightarrow> real \<Rightarrow> real \<Rightarrow> bool \<Rightarrow> 'k SGD" where
  "SGD_init p lr momentum dec avg =
     \<lparr>ops = p, alpha = lr, mu = momentum, decay = dec, max_grad_norm = 100,
      momentums = Map.empty,
      averages = (if avg then Some Map.empty else None),
      nr_update = Map.empty\<rparr>"

definition SGD_lr :: "'k SGD \<Rightarrow> nat \<Rightarrow> error + real" where
  "SGD_lr self nr_upd = linear_decay (alpha self) (decay self) nr_upd"

text \<open>Lines 42 to 52 of \<^verbatim>\<open>SGD.__call__\<close>: the plain step and the momentum step.\<close>

definition SGD_step ::
  "'k SGD \<Rightarrow> vec \<Rightarrow> vec \<Rightarrow> 'k option \<Rightarrow> real \<Rightarrow> ('k SGD \<times> vec \<times> vec) outcome" where
  "SGD_step self weights gradient key lr =
     (if key = None \<or> mu self = 0 then
        (case np_inplace (-) weights (map (\<lambda>x. lr * x) gradient) of
           Inl e \<Rightarrow> Raised e (self, weights, gradient)
         | Inr w' \<Rightarrow> Returned (self, w', fill0 gradient))
      else
        (let moms = (if key \<in> dom (momentums self) then momentums self
                     else (momentums self)(key \<mapsto> allocate (ops self) (length weights)));
             momentum0 = (case moms key of
                            None \<Rightarrow> allocate (ops self) (length weights) | Some m \<Rightarrow> m);
             momentum1 = map (\<lambda>x. x * mu self) momentum0;
             self1 = self\<lparr>momentums := moms(key \<mapsto> momentum1)\<rparr>
         in case np_inplace (+) momentum1 (map (\<lambda>x. x * lr) gradient) of
              Inl e \<Rightarrow> Raised e (self1, weights, gradient)
            | Inr momentum2 \<Rightarrow>
                (let self2 = self\<lparr>momentums := moms(key \<mapsto> momentum2)\<rparr>
                 in case np_inplace (-) weights momentum2 of
                      Inl e \<Rightarrow> Raised e (self2, weights, gradient)
                    | Inr w' \<Rightarrow> Returned (self2, w', fill0 gradient))))"

definition SGD_call ::
  "'k SGD \<Rightarrow> vec \<Rightarrow> vec \<Rightarrow> 'k option \<Rightarrow> real \<Rightarrow> ('k SGD \<times> vec \<times> vec) outcome" where
  "SGD_call self weights gradient key lr_scale =
     (let nr_upd = counter (nr_update self) key + 1;
          self1 = self\<lparr>nr_update := (nr_update self)(key \<mapsto> nr_upd)\<rparr>
      in case SGD_lr self1 nr_upd of
           Inl e \<Rightarrow> Raised e (self1, weights, gradient)
         | Inr lr0 \<Rightarrow>
             (let lr = lr0 * lr_scale
              in case clip_gradient (ops self1) gradient (max_grad_norm self1) of
                   Inl e \<Rightarrow> Raised e (self1, weights, gradient)
                 | Inr g1 \<Rightarrow>
                     (case SGD_step self1 weights g1 key lr of
                        Raised e st \<Rightarrow> Raised e st
                      | Returned (self2, w2, g2) \<Rightarrow>
                          (case track_averages (ops self2) (averages self2) w2 key nr_upd of
                             Raised e av \<Rightarrow> Raised e (self2\<lparr>averages := av\<rparr>, w2, g2)
                           | Returned av \<Rightarrow> Returned (self2\<lparr>averages := av\<rparr>, w2, g2)))))"

definition SGD_set_loss :: "'k SGD \<Rightarrow> real \<Rightarrow> 'k SGD" where
  "SGD_set_loss self loss = self"

section \<open>Adam\<close>

text \<open>
  \<^verbatim>\<open>Adam\<close> derives from \<^verbatim>\<open>SGD\<close> but its constructor sets its own attributes and does not
  call the one of \<^verbatim>\<open>SGD\<close>: an Adam object has no \<^verbatim>\<open>mu\<close> and no \<^verbatim>\<open>momentums\<close>.
\<close>

record 'k Adam =
  ops :: ops
  mom1 :: "'k option \<rightharpoonup> vec"
  mom2 :: "'k option \<rightharpoonup> vec"
  averages :: "('k option \<rightharpoonup> vec) option"
  nr_update :: "'k option \<rightharpoonup> nat"
  last_seen :: "'k option \<rightharpoonup> nat"
  max_grad_norm :: real
  alpha :: real
  b1 :: real
  b2 :: real
  eps :: real
  decay :: real
  d :: real
  f :: real
  L2 :: real

definition Adam_init :: "ops \<Rightarrow> real \<Rightarrow> real \<Rightarrow> real \<Rightarrow> real \<Rightarrow> real \<Rightarrow> real \<Rightarrow> 'k Adam" where
  "Adam_init p lr l2 beta1 beta2 epsilon dec =
     \<lparr>ops = p, mom1 = Map.empty, mom2 = Map.empty, averages = Some Map.empty,
      nr_update = Map.empty, last_seen = Map.empty, max_grad_norm = 100,
      alpha = lr, b1 = beta1, b2 = beta2, eps = epsilon, decay = dec,
      d = 1, f = 0, L2 = l2\<rparr>"

text \<open>
  \<^verbatim>\<open>alpha\<close> comes from \<open>linear_decay\<close>, a division of Python floats. The square root is
  numpy's and the quotient by \<^verbatim>\<open>fix1\<close> is a numpy division: neither raises. Where
  \<^verbatim>\<open>fix1\<close> is zero or \<^verbatim>\<open>fix2\<close> is negative numpy yields an infinity or a NaN, which no
  real number stands for: the value below is that of the source only where
  \<open>b1 ^ nr_upd \<noteq> 1\<close> and \<open>b2 ^ nr_upd \<le> 1\<close>, and a statement about the value carries these
  two conditions.
\<close>

definition Adam_lr :: "'k Adam \<Rightarrow> nat \<Rightarrow> error + real" where
  "Adam_lr self nr_upd =
     (case linear_decay (alpha self) (decay self) nr_upd of
        Inl e \<Rightarrow> Inl e
      | Inr alpha' \<Rightarrow>
          (let fix1 = 1 - b1 self ^ nr_upd;
               fix2 = 1 - b2 self ^ nr_upd
           in Inr (alpha' * sqrt fix2 / fix1)))"

text \<open>
  Lines 102 to 110 of \<^verbatim>\<open>Adam.__call__\<close>: the two moment buffers of \<open>key\<close> (a lookup in a
  dict, \<^verbatim>\<open>KeyError\<close> when absent), the learning rate, the coefficients handed to the
  fused kernel (line 106 reads \<^verbatim>\<open>cdef weight_t b2 = self.b1\<close>), the kernel and
  \<^verbatim>\<open>gradient.fill(0)\<close>.
\<close>

definition Adam_step ::
  "'k Adam \<Rightarrow> vec \<Rightarrow> vec \<Rightarrow> 'k option \<Rightarrow> real \<Rightarrow> nat \<Rightarrow> ('k Adam \<times> vec \<times> vec) outcome" where
  "Adam_step self weights gradient key lr_scale nr_upd =
     (case mom1 self key of
        None \<Rightarrow> Raised KeyError (self, weights, gradient)
      | Some m1 \<Rightarrow>
          (case mom2 self key of
             None \<Rightarrow> Raised KeyError (self, weights, gradient)
           | Some m2 \<Rightarrow>
               (case Adam_lr self nr_upd of
                  Inl e \<Rightarrow> Raised e (self, weights, gradient)
                | Inr lr0 \<Rightarrow>
                    (let lr = lr0 * lr_scale;
                         b1' = b1 self;
                         b2' = b1 self;
                         eps' = eps self
                     in case adam (ops self) weights gradient m1 m2 b1' b2' eps' lr of
                          Inl e \<Rightarrow> Raised e (self, weights, gradient)
                        | Inr (w', g', m1', m2') \<Rightarrow>
                            Returned (self\<lparr>mom1 := (mom1 self)(key \<mapsto> m1'),
                                            mom2 := (mom2 self)(key \<mapsto> m2')\<rparr>,
                                      w', fill0 g')))))"

text \<open>
  Lines 93 to 97 of \<^verbatim>\<open>Adam.__call__\<close>: the two moment buffers of \<open>key\<close> are allocated when
  absent, and the counter of \<open>key\<close> is incremented.
\<close>

definition Adam_prepare :: "'k Adam \<Rightarrow> vec \<Rightarrow> 'k option \<Rightarrow> 'k Adam" where
  "Adam_prepare self weights key =
     self\<lparr>mom1 := (if key \<in> dom (mom1 self) then mom1 self
                   else (mom1 self)(key \<mapsto> allocate (ops self) (length weights))),
          mom2 := (if key \<in> dom (mom2 self) then mom2 self
                   else (mom2 self)(key \<mapsto> allocate (ops self) (length weights))),
          nr_update := (nr_update self)(key \<mapsto> counter (nr_update self) key + 1)\<rparr>"

definition Adam_call ::
  "'k Adam \<Rightarrow> vec \<Rightarrow> vec \<Rightarrow> real \<Rightarrow> 'k option \<Rightarrow> ('k Adam \<times> vec \<times> vec) outcome" where
  "Adam_call self weights gradient lr_scale key =
     (if key = None then Raised AssertionError (self, weights, gradient)
      else if \<not> length gradient \<ge> 1 then Raised AssertionError (self, weights, gradient)
      else
        (let self1 = Adam_prepare self weights key;
             nr_upd = counter (nr_update self1) key
         in case np_inplace (+) gradient (map (\<lambda>x. L2 self1 * x) weights) of
              Inl e \<Rightarrow> Raised e (self1, weights, gradient)
            | Inr g1 \<Rightarrow>
                (case clip_gradient (ops self1) g1 (real (length g1) / 100) of
                   Inl e \<Rightarrow> Raised e (self1, weights, g1)
                 | Inr g2 \<Rightarrow>
                     (case Adam_step self1 weights g2 key lr_scale nr_upd of
                        Raised e st \<Rightarrow> Raised e st
                      | Returned (self2, w3, g3) \<Rightarrow>
                          (case track_averages (ops self2) (averages self2) w3 key nr_upd of
                             Raised e av \<Rightarrow> Raised e (self2\<lparr>averages := av\<rparr>, w3, g3)
                           | Returned av \<Rightarrow> Returned (self2\<lparr>averages := av\<rparr>, w3, g3))))))"

definition Adam_set_loss :: "'k Adam \<Rightarrow> real \<Rightarrow> 'k Adam" where
  "Adam_set_loss self loss = self"

section \<open>Eve\<close>

datatype 'k optimizer = OptSGD "'k SGD" | OptAdam "'k Adam"

record 'k Eve =
  optimizer :: "'k optimizer"
  b3 :: real
  lower_threshold :: real
  upper_threshold :: real
  d :: real
  f :: "real option"

definition Eve_init :: "'k optimizer \<Rightarrow> 'k Eve" where
  "Eve_init opt =
     \<lparr>optimizer = opt, b3 = 999 / 1000, lower_threshold = 1 / 10, upper_threshold = 10,
      d = 1, f = None\<rparr>"

definition Eve_call ::
  "'k Eve \<Rightarrow> vec \<Rightarrow> vec \<Rightarrow> 'k option \<Rightarrow> ('k Eve \<times> vec \<times> vec) outcome" where
  "Eve_call self weights gradient key =
     (case optimizer self of
        OptSGD s \<Rightarrow>
          (case SGD_call s weights gradient key (d self) of
             Returned (s', w', g') \<Rightarrow> Returned (self\<lparr>optimizer := OptSGD s'\<rparr>, w', g')
           | Raised e (s', w', g') \<Rightarrow> Raised e (self\<lparr>optimizer := OptSGD s'\<rparr>, w', g'))
      | OptAdam a \<Rightarrow>
          (case Adam_call a weights gradient (d self) key of
             Returned (a', w', g') \<Rightarrow> Returned (self\<lparr>optimizer := OptAdam a'\<rparr>, w', g')
           | Raised e (a', w', g') \<Rightarrow> Raised e (self\<lparr>optimizer := OptAdam a'\<rparr>, w', g')))"

definition Eve_get_c :: "'k Eve \<Rightarrow> real \<Rightarrow> real \<Rightarrow> error + real" where
  "Eve_get_c self loss old_f =
     (case (if loss < old_f
            then Inr (lower_threshold self + 1, upper_threshold self + 1)
            else (case py_div 1 (upper_threshold self + 1) of
                    Inl e \<Rightarrow> Inl e
                  | Inr delta \<Rightarrow>
                      (case py_div 1 (lower_threshold self + 1) of
                         Inl e \<Rightarrow> Inl e
                       | Inr Delta \<Rightarrow> Inr (delta, Delta)))) of
        Inl e \<Rightarrow> Inl e
      | Inr (delta, Delta) \<Rightarrow>
          (case py_div loss old_f of
             Inl e \<Rightarrow> Inl e
           | Inr q \<Rightarrow> Inr (min (max delta q) delta)))"

definition Eve_set_loss :: "'k Eve \<Rightarrow> real \<Rightarrow> ('k Eve) outcome" where
  "Eve_set_loss self loss =
     (case f self of
        None \<Rightarrow> Returned (self\<lparr>f := Some loss\<rparr>)
      | Some old_f \<Rightarrow>
          (let d0 = d self
           in case Eve_get_c self loss old_f of
                Inl e \<Rightarrow> Raised e self
              | Inr c \<Rightarrow>
                  (let new_f = c * loss
                   in case py_div \<bar>new_f - old_f\<bar> (min new_f old_f) of
                        Inl e \<Rightarrow> Raised e self
                      | Inr r \<Rightarrow>
                          (let new_d = d0 + (1 - b3 self) * (r - d0)
                           in Returned (self\<lparr>d := new_d, f := Some new_f\<rparr>)))))"

section \<open>The kernels as the specification describes them\<close>

text \<open>The Euclidean norm of a vector.\<close>

definition norm2 :: "vec \<Rightarrow> real" where
  "norm2 g = sqrt (\<Sum>x\<leftarrow>g. x * x)"

text \<open>
  Modelled from the spec: \<^verbatim>\<open>ops.allocate\<close> is not in \<^verbatim>\<open>optimizers.pyx\<close>. Section 3 says
  that a buffer is allocated lazily, zero-initialised, with the length of the weight
  vector.
\<close>

definition spec_allocate :: "nat \<Rightarrow> vec" where
  "spec_allocate n = replicate n 0"

text \<open>
  Modelled from the spec: \<^verbatim>\<open>ops.clip_gradient\<close> is not in \<^verbatim>\<open>optimizers.pyx\<close>. Sections 4.1
  and 8 say that a gradient whose norm exceeds the ceiling is rescaled in place so that
  its norm equals the ceiling, and that a gradient under the ceiling is unchanged.
\<close>

definition spec_clip_gradient :: "vec \<Rightarrow> real \<Rightarrow> error + vec" where
  "spec_clip_gradient g threshold =
     Inr (if norm2 g > threshold then map (\<lambda>x. x * (threshold / norm2 g)) g else g)"

text \<open>
  Modelled from the spec: \<^verbatim>\<open>ops.adam\<close> is not in \<^verbatim>\<open>optimizers.pyx\<close>. Section 4.2 gives the
  fused update elementwise: \<^verbatim>\<open>mom1 = beta1*mom1 + (1-beta1)*gradient\<close>,
  \<^verbatim>\<open>mom2 = beta2*mom2 + (1-beta2)*gradient^2\<close>,
  \<^verbatim>\<open>weights -= lr * mom1 / (sqrt(mom2) + epsilon)\<close>; section 7 makes a disagreement of
  the lengths a failure. The gradient is read only.
\<close>

definition spec_adam ::
  "vec \<Rightarrow> vec \<Rightarrow> vec \<Rightarrow> vec \<Rightarrow> real \<Rightarrow> real \<Rightarrow> real \<Rightarrow> real
     \<Rightarrow> error + (vec \<times> vec \<times> vec \<times> vec)" where
  "spec_adam weights gradient m1 m2 beta1 beta2 epsilon lr =
     (if length gradient = length weights \<and> length m1 = length weights
         \<and> length m2 = length weights
      then
        (let m1' = map2 (\<lambda>m x. beta1 * m + (1 - beta1) * x) m1 gradient;
             m2' = map2 (\<lambda>m x. beta2 * m + (1 - beta2) * x\<^sup>2) m2 gradient;
             w' = map2 (\<lambda>w (a, b). w - lr * a / (sqrt b + epsilon)) weights (zip m1' m2')
         in Inr (w', gradient, m1', m2'))
      else Inl ValueError)"

text \<open>
  Modelled from the spec: \<^verbatim>\<open>ops.update_averages\<close> is not in \<^verbatim>\<open>optimizers.pyx\<close>.
  Section 4.1 says only that the buffer becomes a count-weighted average, a function of
  the current weights and of the counter; the running mean is taken here. Section 7
  makes a disagreement of the lengths a failure.
\<close>

definition spec_update_averages :: "vec \<Rightarrow> vec \<Rightarrow> nat \<Rightarrow> error + vec" where
  "spec_update_averages avg weights t =
     (if length weights = length avg
      then Inr (map2 (\<lambda>a x. a + (x - a) / real t) avg weights)
      else Inl ValueError)"

text \<open>The four kernels of the specification as one \<open>ops\<close> object.\<close>

definition spec_ops :: ops where
  "spec_ops = \<lparr>allocate = spec_allocate, clip_gradient = spec_clip_gradient,
               adam = spec_adam, update_averages = spec_update_averages\<rparr>"

text \<open>\<^verbatim>\<open>Eve.__getattr__\<close> forwards \<^verbatim>\<open>ops\<close> to the wrapped optimizer.\<close>

definition Eve_ops :: "'k Eve \<Rightarrow> ops" where
  "Eve_ops self = (case optimizer self of OptSGD s \<Rightarrow> SGD.ops s | OptAdam a \<Rightarrow> Adam.ops a)"

text \<open>\<^verbatim>\<open>Eve.__getattr__\<close> forwards \<^verbatim>\<open>nr_update\<close> as well.\<close>

definition Eve_nr_update :: "'k Eve \<Rightarrow> 'k option \<rightharpoonup> nat" where
  "Eve_nr_update self =
     (case optimizer self of OptSGD s \<Rightarrow> SGD.nr_update s | OptAdam a \<Rightarrow> Adam.nr_update a)"

text \<open>
  The kernels signal their own failures by other exceptions than \<^verbatim>\<open>AssertionError\<close>.
\<close>

definition ops_raise_no_assertion :: "ops \<Rightarrow> bool" where
  "ops_raise_no_assertion p \<longleftrightarrow>
     (\<forall>g t. clip_gradient p g t \<noteq> Inl AssertionError) \<and>
     (\<forall>w g m1 m2 c1 c2 e lr. adam p w g m1 m2 c1 c2 e lr \<noteq> Inl AssertionError) \<and>
     (\<forall>a w t. update_averages p a w t \<noteq> Inl AssertionError)"

text \<open>
  \<^verbatim>\<open>self.averages[key]\<close> when \<^verbatim>\<open>self.averages\<close> is a dict that holds \<open>key\<close>, and the test
  \<^verbatim>\<open>self.averages is not None and key in self.averages\<close>.
\<close>

definition SGD_average :: "'k SGD \<Rightarrow> 'k option \<Rightarrow> vec option" where
  "SGD_average self key = (case SGD.averages self of None \<Rightarrow> None | Some m \<Rightarrow> m key)"

definition SGD_has_average :: "'k SGD \<Rightarrow> 'k option \<Rightarrow> bool" where
  "SGD_has_average self key \<longleftrightarrow> SGD_average self key \<noteq> None"

section \<open>Basic facts\<close>

lemmas call_defs = SGD_call_def SGD_step_def SGD_lr_def SGD_init_def linear_decay_def py_div_def
  np_inplace_def fill0_def counter_def track_averages_def spec_ops_def spec_allocate_def
  spec_clip_gradient_def spec_adam_def spec_update_averages_def norm2_def Let_def
  Adam_call_def Adam_prepare_def Adam_step_def Adam_lr_def Adam_init_def
  Eve_call_def Eve_init_def Eve_ops_def

lemma returned_iff: "is_Returned r \<longleftrightarrow> (\<exists>st. r = Returned st)"
  by (cases r) auto

lemma length_ge_1: "(Suc 0 \<le> length xs) = (xs \<noteq> [])"
  by (cases xs) auto

lemma spec_ops_in_place: "ops_in_place spec_ops"
  by (auto simp: ops_in_place_def spec_ops_def spec_allocate_def spec_clip_gradient_def
      spec_adam_def spec_update_averages_def Let_def split: if_splits)

lemma np_inplace_length: "np_inplace h a b = Inr a' \<Longrightarrow> length a' = length a"
  by (auto simp: np_inplace_def split: if_splits)

lemma clip_length:
  "clip_gradient p g t = Inr g' \<Longrightarrow> ops_in_place p \<longrightarrow> length g' = length g"
  by (auto simp: ops_in_place_def)

lemma Adam_prepare_simps:
  "Adam.nr_update (Adam_prepare a w key) =
     (Adam.nr_update a)(key \<mapsto> counter (Adam.nr_update a) key + 1)"
  "Adam.ops (Adam_prepare a w key) = Adam.ops a"
  "Adam.L2 (Adam_prepare a w key) = Adam.L2 a"
  "Adam.averages (Adam_prepare a w key) = Adam.averages a"
  "Adam.alpha (Adam_prepare a w key) = Adam.alpha a"
  "Adam.decay (Adam_prepare a w key) = Adam.decay a"
  "Adam.b1 (Adam_prepare a w key) = Adam.b1 a"
  "Adam.b2 (Adam_prepare a w key) = Adam.b2 a"
  "Adam.eps (Adam_prepare a w key) = Adam.eps a"
  by (simp_all add: Adam_prepare_def)

section \<open>The gradient buffer after an update\<close>

lemma SGD_step_gradient:
  "SGD_step s w g key lr = Returned (s', w', g') \<Longrightarrow> g' = fill0 g"
  by (auto simp: SGD_step_def Let_def split: if_splits sum.splits)

lemma SGD_call_gradient:
  assumes "ops_in_place (SGD.ops s)"
    and "SGD_call s w g key lr_scale = Returned (s', w', g')"
  shows "g' = replicate (length g) 0"
  using assms
  by (auto simp: SGD_call_def Let_def ops_in_place_def fill0_def
      split: sum.splits outcome.splits dest!: SGD_step_gradient)

lemma Adam_step_gradient:
  "Adam_step a w g key lr_scale n = Returned (s', w', g') \<Longrightarrow>
   ops_in_place (Adam.ops a) \<longrightarrow> g' = replicate (length g) 0"
  by (auto simp: Adam_step_def Let_def ops_in_place_def fill0_def
      split: sum.splits option.splits)

lemma Adam_call_gradient:
  assumes "ops_in_place (Adam.ops a)"
    and "Adam_call a w g lr_scale key = Returned (s', w', g')"
  shows "g' = replicate (length g) 0"
  using assms
  by (auto simp: Adam_call_def Let_def Adam_prepare_simps
      split: sum.splits outcome.splits if_splits
      dest!: Adam_step_gradient np_inplace_length clip_length)

lemma Eve_call_gradient:
  assumes "ops_in_place (Eve_ops e)"
    and "Eve_call e w g key = Returned (s', w', g')"
  shows "g' = replicate (length g) 0"
  using assms
  by (auto simp: Eve_call_def Eve_ops_def split: optimizer.splits outcome.splits
      dest: SGD_call_gradient Adam_call_gradient)

text \<open>
  Claim C1. Whenever an update call of SGD, of Adam or of Eve (around either of them)
  returns, the gradient buffer is the zero vector of the length it had at the call. The
  kernels are arbitrary, as long as they work in place.
\<close>

theorem update_zeroes_gradient:
  "(ops_in_place (SGD.ops s) \<and> is_Returned (SGD_call s w g key lr_scale) \<longrightarrow>
      gradient_of (SGD_call s w g key lr_scale) = replicate (length g) 0) \<and>
   (ops_in_place (Adam.ops a) \<and> is_Returned (Adam_call a w g lr_scale key) \<longrightarrow>
      gradient_of (Adam_call a w g lr_scale key) = replicate (length g) 0) \<and>
   (ops_in_place (Eve_ops e) \<and> is_Returned (Eve_call e w g key) \<longrightarrow>
      gradient_of (Eve_call e w g key) = replicate (length g) 0)"
  by (auto simp: returned_iff gradient_of_def
      dest: SGD_call_gradient Adam_call_gradient Eve_call_gradient)

theorem update_zeroes_gradient_witness:
  "(ops_in_place spec_ops \<and>
    is_Returned (SGD_call (SGD_init spec_ops (1/10) (9/10) 0 True)
                   [1/2, 1] [0, 1] (Some (0::nat)) 1) \<and>
    gradient_of (SGD_call (SGD_init spec_ops (1/10) (9/10) 0 True)
                   [1/2, 1] [0, 1] (Some (0::nat)) 1) = [0, 0]) \<and>
   (is_Returned (Adam_call (Adam_init spec_ops (1/10) (1/10000) (9/10) (999/1000) (1/100000000) 0)
                   [1/2, 1] [0, 1] 1 (Some (0::nat))) \<and>
    gradient_of (Adam_call (Adam_init spec_ops (1/10) (1/10000) (9/10) (999/1000) (1/100000000) 0)
                   [1/2, 1] [0, 1] 1 (Some (0::nat))) = [0, 0]) \<and>
   (is_Returned (Eve_call (Eve_init (OptSGD (SGD_init spec_ops (1/10) 0 0 True)))
                   [1/2, 1] [0, 1] (Some (0::nat))) \<and>
    gradient_of (Eve_call (Eve_init (OptSGD (SGD_init spec_ops (1/10) 0 0 True)))
                   [1/2, 1] [0, 1] (Some (0::nat))) = [0, 0])"
proof -
  let ?s = "SGD_init spec_ops (1/10) (9/10) 0 True :: nat SGD"
  let ?a = "Adam_init spec_ops (1/10) (1/10000) (9/10) (999/1000) (1/100000000) 0 :: nat Adam"
  let ?e = "Eve_init (OptSGD (SGD_init spec_ops (1/10) 0 0 True)) :: nat Eve"
  have p: "ops_in_place (SGD.ops ?s)" "ops_in_place (Adam.ops ?a)" "ops_in_place (Eve_ops ?e)"
    by (simp_all add: SGD_init_def Adam_init_def Eve_init_def Eve_ops_def spec_ops_in_place)
  have r1: "is_Returned (SGD_call ?s [1/2, 1] [0, 1] (Some 0) 1)"
    by (simp add: call_defs)
  have r2: "is_Returned (Adam_call ?a [1/2, 1] [0, 1] 1 (Some 0))"
    by (simp add: call_defs)
  have r3: "is_Returned (Eve_call ?e [1/2, 1] [0, 1] (Some 0))"
    by (simp add: call_defs)
  have z: "replicate (length [0, 1 :: real]) (0 :: real) = [0, 0]"
    by (simp add: numeral_2_eq_2)
  from update_zeroes_gradient[of ?s "[1/2, 1]" "[0, 1]" "Some 0" 1 ?a ?e] p r1 r2 r3
  have "gradient_of (SGD_call ?s [1/2, 1] [0, 1] (Some 0) 1) = [0, 0]"
    and "gradient_of (Adam_call ?a [1/2, 1] [0, 1] 1 (Some 0)) = [0, 0]"
    and "gradient_of (Eve_call ?e [1/2, 1] [0, 1] (Some 0)) = [0, 0]"
    unfolding z by blast+
  with spec_ops_in_place r1 r2 r3 show ?thesis
    by blast
qed

section \<open>The update counters\<close>

lemma counter_upd:
  "counter (m(key \<mapsto> counter m key + 1)) k = counter m k + (if k = key then 1 else 0)"
  by (simp add: counter_def)

lemma SGD_step_nr_update:
  "state_of (SGD_step s w g key lr) = (s', w', g') \<Longrightarrow> SGD.nr_update s' = SGD.nr_update s"
  by (auto simp: SGD_step_def Let_def split: sum.splits if_splits)

lemma SGD_step_nr_update_Returned:
  "SGD_step s w g key lr = Returned (s', w', g') \<Longrightarrow> SGD.nr_update s' = SGD.nr_update s"
  using SGD_step_nr_update[of s w g key lr s' w' g'] by simp

lemma SGD_step_nr_update_Raised:
  "SGD_step s w g key lr = Raised e (s', w', g') \<Longrightarrow> SGD.nr_update s' = SGD.nr_update s"
  using SGD_step_nr_update[of s w g key lr s' w' g'] by simp

lemma SGD_call_nr_update:
  "SGD.nr_update (self_of (SGD_call s w g key lr_scale)) =
     (SGD.nr_update s)(key \<mapsto> counter (SGD.nr_update s) key + 1)"
  by (auto simp: SGD_call_def self_of_def Let_def split: sum.splits outcome.splits
      dest!: SGD_step_nr_update_Returned SGD_step_nr_update_Raised)

lemma Adam_step_nr_update:
  "state_of (Adam_step s w g key ls n) = (s', w', g') \<Longrightarrow> Adam.nr_update s' = Adam.nr_update s"
  by (auto simp: Adam_step_def Let_def split: sum.splits option.splits)

lemma Adam_step_nr_update_Returned:
  "Adam_step s w g key ls n = Returned (s', w', g') \<Longrightarrow> Adam.nr_update s' = Adam.nr_update s"
  using Adam_step_nr_update[of s w g key ls n s' w' g'] by simp

lemma Adam_step_nr_update_Raised:
  "Adam_step s w g key ls n = Raised e (s', w', g') \<Longrightarrow> Adam.nr_update s' = Adam.nr_update s"
  using Adam_step_nr_update[of s w g key ls n s' w' g'] by simp

lemma Adam_call_assert:
  "key = None \<or> g = [] \<Longrightarrow> Adam_call a w g lr_scale key = Raised AssertionError (a, w, g)"
  by (auto simp: Adam_call_def length_ge_1)

lemma Adam_call_nr_update:
  "Adam.nr_update (self_of (Adam_call a w g lr_scale key)) =
     (if key = None \<or> g = [] then Adam.nr_update a
      else (Adam.nr_update a)(key \<mapsto> counter (Adam.nr_update a) key + 1))"
  by (auto simp: Adam_call_def self_of_def Let_def Adam_prepare_simps length_ge_1
      split: sum.splits outcome.splits
      dest!: Adam_step_nr_update_Returned Adam_step_nr_update_Raised)

lemma Eve_call_nr_update:
  "Eve_nr_update (self_of (Eve_call e w g key)) =
     (case optimizer e of
        OptSGD s \<Rightarrow> SGD.nr_update (self_of (SGD_call s w g key (Eve.d e)))
      | OptAdam a \<Rightarrow> Adam.nr_update (self_of (Adam_call a w g (Eve.d e) key)))"
  by (auto simp: Eve_call_def Eve_nr_update_def self_of_def
      split: optimizer.splits outcome.splits)

lemma Eve_nr_update_SGD:
  "optimizer e = OptSGD s \<Longrightarrow>
     Eve_nr_update e = SGD.nr_update s \<and>
     Eve_nr_update (self_of (Eve_call e w g key)) =
       SGD.nr_update (self_of (SGD_call s w g key (Eve.d e)))"
  by (simp add: Eve_call_nr_update) (simp add: Eve_nr_update_def)

lemma Eve_nr_update_Adam:
  "optimizer e = OptAdam a \<Longrightarrow>
     Eve_nr_update e = Adam.nr_update a \<and>
     Eve_nr_update (self_of (Eve_call e w g key)) =
       Adam.nr_update (self_of (Adam_call a w g (Eve.d e) key))"
  by (simp add: Eve_call_nr_update) (simp add: Eve_nr_update_def)

lemma Eve_set_loss_optimizer: "optimizer (state_of (Eve_set_loss e loss)) = optimizer e"
  by (simp add: Eve_set_loss_def Let_def split: option.splits sum.splits)

text \<open>
  Claim C9. A fresh optimizer counts zero for every key. An update call that returns
  adds one to the counter of its key and leaves every other counter alone; no call,
  returning or raising, and no report of a loss lowers a counter. For Eve the counters
  are those of the wrapped optimizer.
\<close>

theorem update_counters:
  "counter (SGD.nr_update (SGD_init p r m c av)) k = 0 \<and>
   counter (Adam.nr_update (Adam_init p r l2 c1 c2 ep c)) k = 0 \<and>
   (is_Returned (SGD_call (s :: 'k SGD) w g key lr_scale) \<longrightarrow>
      counter (SGD.nr_update (self_of (SGD_call s w g key lr_scale))) k =
        counter (SGD.nr_update s) k + (if k = key then 1 else 0)) \<and>
   counter (SGD.nr_update s) k
     \<le> counter (SGD.nr_update (self_of (SGD_call s w g key lr_scale))) k \<and>
   SGD.nr_update (SGD_set_loss s loss) = SGD.nr_update s \<and>
   (is_Returned (Adam_call a w g lr_scale key) \<longrightarrow>
      counter (Adam.nr_update (self_of (Adam_call a w g lr_scale key))) k =
        counter (Adam.nr_update a) k + (if k = key then 1 else 0)) \<and>
   counter (Adam.nr_update a) k
     \<le> counter (Adam.nr_update (self_of (Adam_call a w g lr_scale key))) k \<and>
   Adam.nr_update (Adam_set_loss a loss) = Adam.nr_update a \<and>
   (is_Returned (Eve_call e w g key) \<longrightarrow>
      counter (Eve_nr_update (self_of (Eve_call e w g key))) k =
        counter (Eve_nr_update e) k + (if k = key then 1 else 0)) \<and>
   counter (Eve_nr_update e) k \<le> counter (Eve_nr_update (self_of (Eve_call e w g key))) k \<and>
   Eve_nr_update (state_of (Eve_set_loss e loss)) = Eve_nr_update e"
proof -
  have init: "counter (SGD.nr_update (SGD_init p r m c av)) k = 0"
    "counter (Adam.nr_update (Adam_init p r l2 c1 c2 ep c)) k = 0"
    by (simp_all add: SGD_init_def Adam_init_def counter_def)
  have sgd: "counter (SGD.nr_update (self_of (SGD_call s' w g key x))) k =
        counter (SGD.nr_update s') k + (if k = key then 1 else 0)" for s' :: "'k SGD" and x
    by (simp only: SGD_call_nr_update counter_upd)
  have adam_ok: "counter (Adam.nr_update (self_of (Adam_call a' w g x key))) k =
        counter (Adam.nr_update a') k + (if k = key then 1 else 0)"
    if "is_Returned (Adam_call a' w g x key)" for a' :: "'k Adam" and x
  proof (cases "key = None \<or> g = []")
    case True
    with that show ?thesis by (simp add: Adam_call_assert)
  next
    case False
    then show ?thesis by (simp only: Adam_call_nr_update counter_upd if_False)
  qed
  have adam_le: "counter (Adam.nr_update a') k
      \<le> counter (Adam.nr_update (self_of (Adam_call a' w g x key))) k"
    for a' :: "'k Adam" and x
    by (simp add: Adam_call_nr_update counter_def)
  have eve_ok: "counter (Eve_nr_update (self_of (Eve_call e w g key))) k =
        counter (Eve_nr_update e) k + (if k = key then 1 else 0)"
    if "is_Returned (Eve_call e w g key)"
  proof (cases "optimizer e")
    case (OptSGD s')
    then show ?thesis using sgd[of s' "Eve.d e"]
      by (simp only: Eve_nr_update_SGD[OF OptSGD])
  next
    case (OptAdam a')
    with that have "is_Returned (Adam_call a' w g (Eve.d e) key)"
      by (auto simp: Eve_call_def split: outcome.splits)
    from adam_ok[OF this] show ?thesis
      by (simp only: Eve_nr_update_Adam[OF OptAdam])
  qed
  have eve_le: "counter (Eve_nr_update e) k
      \<le> counter (Eve_nr_update (self_of (Eve_call e w g key))) k"
  proof (cases "optimizer e")
    case (OptSGD s')
    then show ?thesis using sgd[of s' "Eve.d e"]
      by (simp add: Eve_nr_update_SGD[OF OptSGD])
  next
    case (OptAdam a')
    then show ?thesis using adam_le[of a' "Eve.d e"]
      by (simp only: Eve_nr_update_Adam[OF OptAdam])
  qed
  have eve_loss: "Eve_nr_update (state_of (Eve_set_loss e loss)) = Eve_nr_update e"
    by (simp add: Eve_nr_update_def Eve_set_loss_optimizer)
  show ?thesis
    using init sgd[of s lr_scale] adam_ok[of a lr_scale] adam_le[of a lr_scale]
      eve_ok eve_le eve_loss
    by (simp add: SGD_set_loss_def Adam_set_loss_def)
qed

theorem update_counters_witness:
  "is_Returned (SGD_call (SGD_init spec_ops (1/10) (9/10) 0 True)
                  [1/2, 1] [0, 1] (Some (0::nat)) 1) \<and>
   counter (SGD.nr_update (self_of (SGD_call (SGD_init spec_ops (1/10) (9/10) 0 True)
                  [1/2, 1] [0, 1] (Some (0::nat)) 1))) (Some 0) = 1 \<and>
   is_Returned (Adam_call (Adam_init spec_ops (1/10) (1/10000) (9/10) (999/1000) (1/100000000) 0)
                  [1/2, 1] [0, 1] 1 (Some (0::nat))) \<and>
   counter (Adam.nr_update (self_of (Adam_call
                  (Adam_init spec_ops (1/10) (1/10000) (9/10) (999/1000) (1/100000000) 0)
                  [1/2, 1] [0, 1] 1 (Some (0::nat))))) (Some 0) = 1 \<and>
   is_Returned (Eve_call (Eve_init (OptSGD (SGD_init spec_ops (1/10) (9/10) 0 True)))
                  [1/2, 1] [0, 1] (Some (0::nat))) \<and>
   counter (Eve_nr_update (self_of (Eve_call
                  (Eve_init (OptSGD (SGD_init spec_ops (1/10) (9/10) 0 True)))
                  [1/2, 1] [0, 1] (Some (0::nat))))) (Some 0) = 1"
proof -
  let ?s = "SGD_init spec_ops (1/10) (9/10) 0 True :: nat SGD"
  let ?a = "Adam_init spec_ops (1/10) (1/10000) (9/10) (999/1000) (1/100000000) 0 :: nat Adam"
  let ?e = "Eve_init (OptSGD ?s) :: nat Eve"
  have r1: "is_Returned (SGD_call ?s [1/2, 1] [0, 1] (Some 0) 1)"
    by (simp add: call_defs)
  have r2: "is_Returned (Adam_call ?a [1/2, 1] [0, 1] 1 (Some 0))"
    by (simp add: call_defs)
  have r3: "is_Returned (Eve_call ?e [1/2, 1] [0, 1] (Some 0))"
    by (simp add: call_defs)
  have z: "counter (SGD.nr_update ?s) (Some 0) = 0" "counter (Adam.nr_update ?a) (Some 0) = 0"
    "counter (Eve_nr_update ?e) (Some 0) = 0"
    by (simp_all add: SGD_init_def Adam_init_def Eve_init_def Eve_nr_update_def counter_def)
  from update_counters[where s = ?s and a = ?a and e = ?e and w = "[1/2, 1]" and g = "[0, 1]"
      and key = "Some 0" and k = "Some 0" and lr_scale = 1] r1 r2 r3 z
  show ?thesis by simp
qed

section \<open>Adam's precondition\<close>

text \<open>
  Claim C10. When the key is absent or the gradient is empty, Adam's update raises the
  assertion failure at once: the optimizer object (counters, moment maps, averages map),
  the weights and the gradient are those of the call.
\<close>

theorem Adam_failed_assert_keeps_state:
  "key = None \<or> g = [] \<Longrightarrow>
     Adam_call a w g lr_scale key = Raised AssertionError (a, w, g)"
  by (auto simp: Adam_call_def length_ge_1)

theorem Adam_failed_assert_keeps_state_witness:
  "Adam_call (Adam_init spec_ops (1/10) (1/10000) (9/10) (999/1000) (1/100000000) 0)
      [1/2, 1] [0, 1] 1 (None :: nat option) =
     Raised AssertionError
       (Adam_init spec_ops (1/10) (1/10000) (9/10) (999/1000) (1/100000000) 0,
        [1/2, 1], [0, 1]) \<and>
   Adam_call (Adam_init spec_ops (1/10) (1/10000) (9/10) (999/1000) (1/100000000) 0)
      [1/2, 1] [] 1 (Some (0::nat)) =
     Raised AssertionError
       (Adam_init spec_ops (1/10) (1/10000) (9/10) (999/1000) (1/100000000) 0,
        [1/2, 1], [])"
  using Adam_failed_assert_keeps_state[of "None :: nat option" "[0, 1]"
          "Adam_init spec_ops (1/10) (1/10000) (9/10) (999/1000) (1/100000000) 0" "[1/2, 1]" 1]
        Adam_failed_assert_keeps_state[of "Some (0::nat)" "[]"
          "Adam_init spec_ops (1/10) (1/10000) (9/10) (999/1000) (1/100000000) 0" "[1/2, 1]" 1]
  by simp

lemma spec_ops_raise_no_assertion: "ops_raise_no_assertion spec_ops"
  by (simp add: ops_raise_no_assertion_def spec_ops_def spec_clip_gradient_def spec_adam_def
      spec_update_averages_def Let_def)

lemma track_averages_no_assert:
  "track_averages p av w key n = Raised AssertionError x \<Longrightarrow> \<not> ops_raise_no_assertion p"
  by (auto simp: track_averages_def Let_def ops_raise_no_assertion_def
      split: option.splits sum.splits)

lemma Adam_step_no_assert:
  "Adam_step s w g key ls n = Raised AssertionError st \<Longrightarrow>
     \<not> ops_raise_no_assertion (Adam.ops s)"
  by (auto simp: Adam_step_def Adam_lr_def linear_decay_def py_div_def Let_def
      ops_raise_no_assertion_def split: sum.splits option.splits if_splits)

lemma Adam_step_ops:
  "state_of (Adam_step s w g key ls n) = (s', w', g') \<Longrightarrow> Adam.ops s' = Adam.ops s"
  by (auto simp: Adam_step_def Let_def split: sum.splits option.splits)

lemma Adam_step_ops_Returned:
  "Adam_step s w g key ls n = Returned (s', w', g') \<Longrightarrow> Adam.ops s' = Adam.ops s"
  using Adam_step_ops[of s w g key ls n s' w' g'] by simp

lemma np_inplace_no_assert: "np_inplace h x y = Inl e \<Longrightarrow> e \<noteq> AssertionError"
  by (auto simp: np_inplace_def split: if_splits)

lemma clip_no_assert:
  "clip_gradient p x t = Inl e \<Longrightarrow> ops_raise_no_assertion p \<longrightarrow> e \<noteq> AssertionError"
  by (auto simp: ops_raise_no_assertion_def)

text \<open>
  Claim C5. Adam's update fails at its precondition check, with nothing mutated, exactly
  when the key is absent or the gradient is empty: the two asserts are the first
  statements of the call, and the call is evaluated once. When the kernels signal their
  own failures by other exceptions, no later statement raises \<^verbatim>\<open>AssertionError\<close> either.
  No relation between the lengths of the weights and of the gradient is needed.
\<close>

theorem Adam_assertion_iff:
  "(Adam_call a w g lr_scale key = Raised AssertionError (a, w, g)
      \<longleftrightarrow> key = None \<or> g = []) \<and>
   (ops_raise_no_assertion (Adam.ops a) \<longrightarrow>
      (error_of (Adam_call a w g lr_scale key) = Some AssertionError
         \<longleftrightarrow> key = None \<or> g = []))"
proof (cases "key = None \<or> g = []")
  case True
  then show ?thesis by (simp add: Adam_call_assert)
next
  case False
  have "Adam_call a w g lr_scale key \<noteq> Raised AssertionError (a, w, g)"
  proof
    assume "Adam_call a w g lr_scale key = Raised AssertionError (a, w, g)"
    then have "Adam.nr_update (self_of (Adam_call a w g lr_scale key)) = Adam.nr_update a"
      by (simp add: self_of_def)
    moreover from False
    have "Adam.nr_update (self_of (Adam_call a w g lr_scale key))
        = (Adam.nr_update a)(key \<mapsto> counter (Adam.nr_update a) key + 1)"
      by (auto simp: Adam_call_nr_update)
    ultimately have "(Adam.nr_update a)(key \<mapsto> counter (Adam.nr_update a) key + 1)
        = Adam.nr_update a"
      by simp
    then have "Adam.nr_update a key = Some (counter (Adam.nr_update a) key + 1)"
      by (metis fun_upd_same)
    then show False by (cases "Adam.nr_update a key") (simp_all add: counter_def)
  qed
  moreover have "error_of (Adam_call a w g lr_scale key) \<noteq> Some AssertionError"
    if "ops_raise_no_assertion (Adam.ops a)"
    using False that
    by (auto simp: Adam_call_def Let_def Adam_prepare_simps length_ge_1
        split: sum.splits outcome.splits
        dest!: Adam_step_no_assert Adam_step_ops_Returned track_averages_no_assert
               np_inplace_no_assert clip_no_assert)
  ultimately show ?thesis using False by simp
qed

theorem Adam_assertion_iff_witness:
  "ops_raise_no_assertion spec_ops \<and>
   error_of (Adam_call (Adam_init spec_ops (1/10) (1/10000) (9/10) (999/1000) (1/100000000) 0)
      [1/2, 1] [] 1 (Some (0::nat))) = Some AssertionError \<and>
   error_of (Adam_call (Adam_init spec_ops (1/10) (1/10000) (9/10) (999/1000) (1/100000000) 0)
      [1/2, 1] [0, 1] 1 (Some (0::nat))) \<noteq> Some AssertionError"
proof -
  let ?a = "Adam_init spec_ops (1/10) (1/10000) (9/10) (999/1000) (1/100000000) 0 :: nat Adam"
  have p: "ops_raise_no_assertion (Adam.ops ?a)"
    by (simp add: Adam_init_def spec_ops_raise_no_assertion)
  from Adam_assertion_iff[of ?a "[1/2, 1]" "[]" 1 "Some 0"]
       Adam_assertion_iff[of ?a "[1/2, 1]" "[0, 1]" 1 "Some 0"]
       p spec_ops_raise_no_assertion
  show ?thesis by simp
qed

section \<open>SGD without momentum\<close>

lemma norm2_single: "norm2 [x] = \<bar>x\<bar>"
  by (simp add: norm2_def)

lemma SGD_lr_frame: "SGD_lr (s\<lparr>SGD.nr_update := x\<rparr>) n = SGD_lr s n"
  by (simp add: SGD_lr_def)

lemma SGD_call_plain:
  assumes "SGD_call s w g key lr_scale = Returned (s', w', g')"
    and "key = None \<or> SGD.mu s = 0"
  shows "\<exists>lr0 g1 av.
           SGD_lr s (counter (SGD.nr_update s) key + 1) = Inr lr0 \<and>
           clip_gradient (SGD.ops s) g (SGD.max_grad_norm s) = Inr g1 \<and>
           np_inplace (-) w (map (\<lambda>x. lr0 * lr_scale * x) g1) = Inr w' \<and>
           track_averages (SGD.ops s) (SGD.averages s) w' key
             (counter (SGD.nr_update s) key + 1) = Returned av \<and>
           s' = s\<lparr>SGD.nr_update :=
                     (SGD.nr_update s)(key \<mapsto> counter (SGD.nr_update s) key + 1),
                   SGD.averages := av\<rparr>"
  using assms
  by (auto simp: SGD_call_def SGD_step_def SGD_lr_frame Let_def
      split: sum.splits outcome.splits if_splits)

lemma track_averages_Returned:
  assumes "track_averages p av w key n = Returned av'"
  shows "(av = None \<longrightarrow> av' = None) \<and>
         (\<forall>m. av = Some m \<longrightarrow>
            (\<exists>m'. av' = Some m' \<and> m' key \<noteq> None \<and> (\<forall>k. k \<noteq> key \<longrightarrow> m' k = m k)))"
  using assms
  by (auto simp: track_averages_def Let_def split: option.splits sum.splits if_splits)

text \<open>
  Claim C4, as stated, fails: with running averages enabled (the default of the
  constructor), a call with the key \<^verbatim>\<open>None\<close> allocates and keeps \<^verbatim>\<open>self.averages[None]\<close>.
\<close>

theorem SGD_absent_key_average_counterexample:
  "is_Returned (SGD_call (SGD_init spec_ops (1/10) 0 0 True) [1] [1] (None :: nat option) 1) \<and>
   \<not> SGD_has_average (SGD_init spec_ops (1/10) 0 0 True :: nat SGD) None \<and>
   SGD_has_average
     (self_of (SGD_call (SGD_init spec_ops (1/10) 0 0 True) [1] [1] (None :: nat option) 1)) None"
  by (simp add: call_defs self_of_def SGD_has_average_def SGD_average_def)

text \<open>
  Claim C4, amended. An SGD update call with the key \<^verbatim>\<open>None\<close> that returns leaves the
  momentum map as it was. The averages stay absent when they are disabled; when they are
  enabled the averages map holds an entry under \<^verbatim>\<open>None\<close> after the call and is unchanged
  at every other key. The call computes the decayed learning rate, scales it by
  \<^verbatim>\<open>lr_scale\<close> and subtracts it times the clipped gradient from the weights directly.
\<close>

theorem SGD_call_absent_key:
  assumes "is_Returned (SGD_call s w g None lr_scale)"
  shows "SGD.momentums (self_of (SGD_call s w g None lr_scale)) = SGD.momentums s \<and>
         (SGD.averages s = None \<longrightarrow>
            SGD.averages (self_of (SGD_call s w g None lr_scale)) = None) \<and>
         (SGD.averages s \<noteq> None \<longrightarrow>
            SGD_has_average (self_of (SGD_call s w g None lr_scale)) None) \<and>
         (\<forall>k. k \<noteq> None \<longrightarrow>
            SGD_average (self_of (SGD_call s w g None lr_scale)) k = SGD_average s k) \<and>
         (\<exists>lr0 g1.
            SGD_lr s (counter (SGD.nr_update s) None + 1) = Inr lr0 \<and>
            clip_gradient (SGD.ops s) g (SGD.max_grad_norm s) = Inr g1 \<and>
            np_inplace (-) w (map (\<lambda>x. lr0 * lr_scale * x) g1) =
              Inr (weights_of (SGD_call s w g None lr_scale)))"
proof -
  from assms obtain s' w' g' where r: "SGD_call s w g None lr_scale = Returned (s', w', g')"
    by (cases "SGD_call s w g None lr_scale") auto
  from SGD_call_plain[OF r] obtain lr0 g1 av where
    lr: "SGD_lr s (counter (SGD.nr_update s) None + 1) = Inr lr0" and
    cl: "clip_gradient (SGD.ops s) g (SGD.max_grad_norm s) = Inr g1" and
    st: "np_inplace (-) w (map (\<lambda>x. lr0 * lr_scale * x) g1) = Inr w'" and
    ta: "track_averages (SGD.ops s) (SGD.averages s) w' None
           (counter (SGD.nr_update s) None + 1) = Returned av" and
    s': "s' = s\<lparr>SGD.nr_update :=
                   (SGD.nr_update s)(None \<mapsto> counter (SGD.nr_update s) None + 1),
                 SGD.averages := av\<rparr>"
    by auto
  note av = track_averages_Returned[OF ta]
  have "SGD.momentums s' = SGD.momentums s" by (simp add: s')
  moreover have "SGD.averages s = None \<longrightarrow> SGD.averages s' = None"
    using av by (simp add: s')
  moreover have "SGD.averages s \<noteq> None \<longrightarrow> SGD_has_average s' None"
    using av by (auto simp: s' SGD_has_average_def SGD_average_def)
  moreover have "\<forall>k. k \<noteq> None \<longrightarrow> SGD_average s' k = SGD_average s k"
    using av by (cases "SGD.averages s") (auto simp: s' SGD_average_def)
  ultimately show ?thesis
    using lr cl st by (simp add: r self_of_def weights_of_def)
qed

theorem SGD_call_absent_key_witness:
  "is_Returned (SGD_call (SGD_init spec_ops (1/10) (9/10) 0 True)
                  [1/2, 1] [0, 1] (None :: nat option) 1) \<and>
   SGD.momentums (self_of (SGD_call (SGD_init spec_ops (1/10) (9/10) 0 True)
                  [1/2, 1] [0, 1] (None :: nat option) 1)) =
     SGD.momentums (SGD_init spec_ops (1/10) (9/10) 0 True) \<and>
   SGD_has_average (self_of (SGD_call (SGD_init spec_ops (1/10) (9/10) 0 True)
                  [1/2, 1] [0, 1] (None :: nat option) 1)) None"
proof -
  let ?s = "SGD_init spec_ops (1/10) (9/10) 0 True :: nat SGD"
  have r: "is_Returned (SGD_call ?s [1/2, 1] [0, 1] None 1)"
    by (simp add: call_defs)
  have a: "SGD.averages ?s \<noteq> None"
    by (simp add: SGD_init_def)
  from SGD_call_absent_key[OF r] a r show ?thesis by blast
qed

text \<open>
  Claim C7, as stated, fails: the gradient is clipped at \<^verbatim>\<open>max_grad_norm = 100\<close> before
  the step. With learning rate 1, no decay, weights \<open>[0]\<close> and gradient \<open>[200]\<close> the step
  subtracts the clipped gradient \<open>[100]\<close>.
\<close>

theorem SGD_first_update_counterexample:
  "is_Returned (SGD_call (SGD_init spec_ops 1 0 0 True) [0] [200] (Some (0::nat)) 1) \<and>
   weights_of (SGD_call (SGD_init spec_ops 1 0 0 True) [0] [200] (Some (0::nat)) 1) = [- 100] \<and>
   weights_of (SGD_call (SGD_init spec_ops 1 0 0 True) [0] [200] (Some (0::nat)) 1)
     \<noteq> [0 - 1 / (1 + 0) * 200]"
  by (simp add: SGD_call_def SGD_step_def SGD_lr_def SGD_init_def linear_decay_def py_div_def
      np_inplace_def fill0_def counter_def track_averages_def spec_ops_def spec_allocate_def
      spec_clip_gradient_def spec_update_averages_def norm2_single Let_def weights_of_def)

text \<open>
  Claim C7, amended. For SGD with momentum zero, the first update of a fresh key with
  \<^verbatim>\<open>lr_scale = 1\<close>, weights and gradient of one length, when it returns, leaves
  \<open>weights - lr(1) * clipped\<close> elementwise in the weights, where \<open>lr(1)\<close> is
  \<open>alpha / (1 + decay)\<close> and \<open>clipped\<close> is what \<^verbatim>\<open>clip_gradient\<close> leaves in the gradient
  buffer. With the clipping of the specification, \<open>clipped\<close> is the gradient itself when
  its norm does not exceed \<^verbatim>\<open>max_grad_norm\<close>.
\<close>

theorem SGD_first_update:
  assumes "SGD.mu s = 0"
    and "counter (SGD.nr_update s) key = 0"
    and "length g = length w"
    and "ops_in_place (SGD.ops s)"
    and "is_Returned (SGD_call s w g key 1)"
  shows "\<exists>g1. clip_gradient (SGD.ops s) g (SGD.max_grad_norm s) = Inr g1 \<and>
           weights_of (SGD_call s w g key 1) =
             map2 (\<lambda>x y. x - SGD.alpha s / (1 + SGD.decay s) * y) w g1 \<and>
           (clip_gradient (SGD.ops s) = spec_clip_gradient \<and> norm2 g \<le> SGD.max_grad_norm s
              \<longrightarrow> g1 = g)"
proof -
  from assms(5) obtain s' w' g' where r: "SGD_call s w g key 1 = Returned (s', w', g')"
    by (cases "SGD_call s w g key 1") auto
  from SGD_call_plain[OF r] assms(1,2) obtain lr0 g1 where
    lr: "SGD_lr s 1 = Inr lr0" and
    cl: "clip_gradient (SGD.ops s) g (SGD.max_grad_norm s) = Inr g1" and
    st: "np_inplace (-) w (map (\<lambda>x. lr0 * 1 * x) g1) = Inr w'"
    by auto
  from lr have lr0: "lr0 = SGD.alpha s / (1 + SGD.decay s)"
    by (auto simp: SGD_lr_def linear_decay_def py_div_def split: if_splits)
  from cl assms(3,4) have len: "length g1 = length w"
    by (auto simp: ops_in_place_def)
  from st len have "w' = map2 (\<lambda>x y. x - lr0 * y) w g1"
    by (auto simp: np_inplace_def zip_map2 intro!: nth_equalityI)
  moreover have "g1 = g" if "clip_gradient (SGD.ops s) = spec_clip_gradient"
    and "norm2 g \<le> SGD.max_grad_norm s"
    using cl that by (simp add: spec_clip_gradient_def)
  ultimately show ?thesis
    using cl by (simp add: r weights_of_def lr0)
qed

theorem SGD_first_update_witness:
  "SGD.mu (SGD_init spec_ops (1/10) 0 (1/2) True :: nat SGD) = 0 \<and>
   counter (SGD.nr_update (SGD_init spec_ops (1/10) 0 (1/2) True :: nat SGD)) (Some 0) = 0 \<and>
   length [0, 1 :: real] = length [1/2, 1 :: real] \<and>
   ops_in_place (SGD.ops (SGD_init spec_ops (1/10) 0 (1/2) True :: nat SGD)) \<and>
   is_Returned (SGD_call (SGD_init spec_ops (1/10) 0 (1/2) True)
                  [1/2, 1] [0, 1] (Some (0::nat)) 1) \<and>
   weights_of (SGD_call (SGD_init spec_ops (1/10) 0 (1/2) True)
                  [1/2, 1] [0, 1] (Some (0::nat)) 1) = [1/2, 14/15]"
proof -
  let ?s = "SGD_init spec_ops (1/10) 0 (1/2) True :: nat SGD"
  have h1: "SGD.mu ?s = 0" by (simp add: SGD_init_def)
  have h2: "counter (SGD.nr_update ?s) (Some 0) = 0" by (simp add: SGD_init_def counter_def)
  have h3: "length [0, 1 :: real] = length [1/2, 1 :: real]" by simp
  have h4: "ops_in_place (SGD.ops ?s)" by (simp add: SGD_init_def spec_ops_in_place)
  have h5: "is_Returned (SGD_call ?s [1/2, 1] [0, 1] (Some 0) 1)" by (simp add: call_defs)
  have c: "clip_gradient (SGD.ops ?s) = spec_clip_gradient"
    by (simp add: SGD_init_def spec_ops_def)
  have n: "norm2 [0, 1] \<le> SGD.max_grad_norm ?s"
    by (simp add: SGD_init_def norm2_def)
  from SGD_first_update[OF h1 h2 h3 h4 h5] c n
  have "weights_of (SGD_call ?s [1/2, 1] [0, 1] (Some 0) 1) =
          map2 (\<lambda>x y. x - SGD.alpha ?s / (1 + SGD.decay ?s) * y) [1/2, 1] [0, 1]"
    by metis
  then have "weights_of (SGD_call ?s [1/2, 1] [0, 1] (Some 0) 1) = [1/2, 14/15]"
    by (simp add: SGD_init_def)
  with h1 h2 h3 h4 h5 show ?thesis by blast
qed

section \<open>Adam's update\<close>

lemma Adam_lr_prepare: "Adam_lr (Adam_prepare a w key) n = Adam_lr a n"
  by (simp add: Adam_lr_def Adam_prepare_simps split: sum.splits)

lemma counter_prepare:
  "counter (Adam.nr_update (Adam_prepare a w key)) key = counter (Adam.nr_update a) key + 1"
  by (simp add: Adam_prepare_simps counter_def)

lemma Adam_lr_value:
  "Adam_lr a n =
     (if 1 + Adam.decay a * real n = 0 then Inl ZeroDivisionError
      else Inr (Adam.alpha a / (1 + Adam.decay a * real n)
                 * sqrt (1 - Adam.b2 a ^ n) / (1 - Adam.b1 a ^ n)))"
  by (simp add: Adam_lr_def linear_decay_def py_div_def)

lemma Adam_step_Returned:
  assumes "Adam_step s w g key ls n = Returned (s', w', g')"
  shows "\<exists>m1 m2 lr0 g3 m1' m2'.
           mom1 s key = Some m1 \<and> mom2 s key = Some m2 \<and> Adam_lr s n = Inr lr0 \<and>
           adam (Adam.ops s) w g m1 m2 (Adam.b1 s) (Adam.b1 s) (Adam.eps s) (lr0 * ls)
             = Inr (w', g3, m1', m2') \<and>
           s' = s\<lparr>mom1 := (mom1 s)(key \<mapsto> m1'), mom2 := (mom2 s)(key \<mapsto> m2')\<rparr>"
  using assms
  by (auto simp: Adam_step_def Let_def split: option.splits sum.splits)

lemma Adam_call_Returned:
  assumes "Adam_call a w g ls key = Returned (s', w', g')"
  shows "key \<noteq> None \<and> g \<noteq> [] \<and>
         (\<exists>g1 g2 m1 m2 lr0 g3 m1' m2'.
            np_inplace (+) g (map (\<lambda>x. Adam.L2 a * x) w) = Inr g1 \<and>
            clip_gradient (Adam.ops a) g1 (real (length g1) / 100) = Inr g2 \<and>
            Adam_lr a (counter (Adam.nr_update a) key + 1) = Inr lr0 \<and>
            mom1 (Adam_prepare a w key) key = Some m1 \<and>
            mom2 (Adam_prepare a w key) key = Some m2 \<and>
            adam (Adam.ops a) w g2 m1 m2 (Adam.b1 a) (Adam.b1 a) (Adam.eps a) (lr0 * ls)
              = Inr (w', g3, m1', m2') \<and>
            mom1 s' key = Some m1' \<and> mom2 s' key = Some m2')"
proof -
  from assms have k: "key \<noteq> None" "g \<noteq> []"
    by (auto simp: Adam_call_def length_ge_1 split: if_splits)
  let ?s1 = "Adam_prepare a w key"
  let ?n = "counter (Adam.nr_update a) key + 1"
  from assms k have "\<exists>g1 g2 s2.
      np_inplace (+) g (map (\<lambda>x. Adam.L2 a * x) w) = Inr g1 \<and>
      clip_gradient (Adam.ops a) g1 (real (length g1) / 100) = Inr g2 \<and>
      Adam_step ?s1 w g2 key ls ?n = Returned (s2, w', g') \<and>
      mom1 s' = mom1 s2 \<and> mom2 s' = mom2 s2"
    by (auto simp: Adam_call_def Let_def counter_prepare Adam_prepare_simps(2-) length_ge_1
        split: sum.splits outcome.splits)
  then obtain g1 g2 s2 where
    g1: "np_inplace (+) g (map (\<lambda>x. Adam.L2 a * x) w) = Inr g1" and
    g2: "clip_gradient (Adam.ops a) g1 (real (length g1) / 100) = Inr g2" and
    st: "Adam_step ?s1 w g2 key ls ?n = Returned (s2, w', g')" and
    s': "mom1 s' = mom1 s2" "mom2 s' = mom2 s2"
    by blast
  from Adam_step_Returned[OF st] obtain m1 m2 lr0 g3 m1' m2' where
    m: "mom1 ?s1 key = Some m1" "mom2 ?s1 key = Some m2" and
    lr: "Adam_lr ?s1 ?n = Inr lr0" and
    ad: "adam (Adam.ops ?s1) w g2 m1 m2 (Adam.b1 ?s1) (Adam.b1 ?s1) (Adam.eps ?s1) (lr0 * ls)
       = Inr (w', g3, m1', m2')" and
    s2: "s2 = ?s1\<lparr>mom1 := (mom1 ?s1)(key \<mapsto> m1'), mom2 := (mom2 ?s1)(key \<mapsto> m2')\<rparr>"
    by blast
  from s2 s' have m': "mom1 s' key = Some m1'" "mom2 s' key = Some m2'"
    by simp_all
  from lr have lr': "Adam_lr a ?n = Inr lr0"
    by (simp only: Adam_lr_prepare)
  from ad have ad': "adam (Adam.ops a) w g2 m1 m2 (Adam.b1 a) (Adam.b1 a) (Adam.eps a) (lr0 * ls)
       = Inr (w', g3, m1', m2')"
    by (simp only: Adam_prepare_simps)
  from k g1 g2 lr' m ad' m' show ?thesis
    by blast
qed

lemma sqrt_tenth: "sqrt (1 / 10) / (1 / 10) = sqrt 10"
proof -
  have "sqrt 10 * sqrt 10 = 10" by simp
  then have "10 / sqrt 10 = sqrt 10"
    by (metis div_by_0 nonzero_mult_div_cancel_right)
  then show ?thesis by (simp add: real_sqrt_divide)
qed

text \<open>
  Claim C6. In the \<open>n\<close>-th update of a key (the call that finds the counter at \<open>n - 1\<close>),
  when it returns, and where the bias correction is a finite number (\<open>b1 ^ n \<noteq> 1\<close> and
  \<open>b2 ^ n \<le> 1\<close>, as for every \<open>0 \<le> b1 < 1\<close> and \<open>0 \<le> b2 \<le> 1\<close>), the rate handed to the
  fused kernel is \<open>alpha / (1 + decay * n) * sqrt (1 - b2 ^ n) / (1 - b1 ^ n) * lr_scale\<close>,
  the first factor being \<open>linear_decay alpha decay n\<close>, with a divisor that is not zero
  and a radicand that is not negative. For \<open>b1 = b2 = 0.9\<close> and \<open>n = 1\<close> the rate before
  \<open>lr_scale\<close> is the decayed \<open>alpha\<close> times \<open>sqrt 0.1 / 0.1\<close>, that is, times \<open>sqrt 10\<close>.
\<close>

theorem Adam_learning_rate:
  assumes "is_Returned (Adam_call a w g lr_scale key)"
    and "n = counter (Adam.nr_update a) key + 1"
    and "Adam.b1 a ^ n \<noteq> 1"
    and "Adam.b2 a ^ n \<le> 1"
  shows "1 \<le> n \<and>
         1 - Adam.b1 a ^ n \<noteq> 0 \<and> 0 \<le> 1 - Adam.b2 a ^ n \<and>
         linear_decay (Adam.alpha a) (Adam.decay a) n
           = Inr (Adam.alpha a / (1 + Adam.decay a * real n)) \<and>
         Adam_lr a n = Inr (Adam.alpha a / (1 + Adam.decay a * real n)
                             * sqrt (1 - Adam.b2 a ^ n) / (1 - Adam.b1 a ^ n)) \<and>
         (\<exists>g2 m1 m2 out.
            adam (Adam.ops a) w g2 m1 m2 (Adam.b1 a) (Adam.b1 a) (Adam.eps a)
              (Adam.alpha a / (1 + Adam.decay a * real n)
                 * sqrt (1 - Adam.b2 a ^ n) / (1 - Adam.b1 a ^ n) * lr_scale) = Inr out \<and>
            weights_of (Adam_call a w g lr_scale key) = fst out) \<and>
         (Adam.b1 a = 9 / 10 \<and> Adam.b2 a = 9 / 10 \<and> n = 1 \<longrightarrow>
            Adam_lr a n = Inr (Adam.alpha a / (1 + Adam.decay a) * sqrt (1 / 10) / (1 / 10)) \<and>
            Adam_lr a n = Inr (Adam.alpha a / (1 + Adam.decay a) * sqrt 10))"
proof -
  from assms(1) obtain s' w' g' where r: "Adam_call a w g lr_scale key = Returned (s', w', g')"
    by (cases "Adam_call a w g lr_scale key") auto
  from Adam_call_Returned[OF r] assms(2) obtain g2 m1 m2 lr0 g3 m1' m2' where
    lr: "Adam_lr a n = Inr lr0" and
    ad: "adam (Adam.ops a) w g2 m1 m2 (Adam.b1 a) (Adam.b1 a) (Adam.eps a) (lr0 * lr_scale)
           = Inr (w', g3, m1', m2')"
    by auto
  from lr have nz: "1 + Adam.decay a * real n \<noteq> 0"
    by (auto simp: Adam_lr_value split: if_splits)
  with lr have lr0: "lr0 = Adam.alpha a / (1 + Adam.decay a * real n)
                             * sqrt (1 - Adam.b2 a ^ n) / (1 - Adam.b1 a ^ n)"
    by (simp add: Adam_lr_value)
  have ld: "linear_decay (Adam.alpha a) (Adam.decay a) n
           = Inr (Adam.alpha a / (1 + Adam.decay a * real n))"
    using nz by (simp add: linear_decay_def py_div_def)
  have ex: "\<exists>g2 m1 m2 out.
            adam (Adam.ops a) w g2 m1 m2 (Adam.b1 a) (Adam.b1 a) (Adam.eps a)
              (Adam.alpha a / (1 + Adam.decay a * real n)
                 * sqrt (1 - Adam.b2 a ^ n) / (1 - Adam.b1 a ^ n) * lr_scale) = Inr out \<and>
            weights_of (Adam_call a w g lr_scale key) = fst out"
    using ad unfolding lr0 by (intro exI[of _ g2] exI[of _ m1] exI[of _ m2] exI[of _ "(w', g3, m1', m2')"])
      (simp add: r weights_of_def)
  have sp: "Adam_lr a n = Inr (Adam.alpha a / (1 + Adam.decay a) * sqrt (1 / 10) / (1 / 10)) \<and>
            Adam_lr a n = Inr (Adam.alpha a / (1 + Adam.decay a) * sqrt 10)"
    if "Adam.b1 a = 9 / 10" "Adam.b2 a = 9 / 10" "n = 1"
  proof -
    have "Adam_lr a n = Inr (Adam.alpha a / (1 + Adam.decay a) * sqrt (1 / 10) / (1 / 10))"
      using lr lr0 that by simp
    moreover have "Adam.alpha a / (1 + Adam.decay a) * sqrt (1 / 10) / (1 / 10)
        = Adam.alpha a / (1 + Adam.decay a) * (sqrt (1 / 10) / (1 / 10))"
      by simp
    ultimately show ?thesis by (simp only: sqrt_tenth)
  qed
  from assms(2) have "1 \<le> n" by simp
  moreover from assms(3,4) have "1 - Adam.b1 a ^ n \<noteq> 0" "0 \<le> 1 - Adam.b2 a ^ n"
    by simp_all
  ultimately show ?thesis using ld lr lr0 ex sp by blast
qed

theorem Adam_learning_rate_witness:
  "is_Returned (Adam_call (Adam_init spec_ops (1/10) (1/10000) (9/10) (9/10) (1/100000000) 0)
                  [1/2, 1] [0, 1] 1 (Some (0::nat))) \<and>
   (1::nat) = counter (Adam.nr_update
                  (Adam_init spec_ops (1/10) (1/10000) (9/10) (9/10) (1/100000000) 0))
                (Some (0::nat)) + 1 \<and>
   Adam.b1 (Adam_init spec_ops (1/10) (1/10000) (9/10) (9/10) (1/100000000) 0 :: nat Adam)
     ^ (1::nat) \<noteq> 1 \<and>
   Adam.b2 (Adam_init spec_ops (1/10) (1/10000) (9/10) (9/10) (1/100000000) 0 :: nat Adam)
     ^ (1::nat) \<le> 1 \<and>
   Adam_lr (Adam_init spec_ops (1/10) (1/10000) (9/10) (9/10) (1/100000000) 0 :: nat Adam) 1
     = Inr (1 / 10 * sqrt 10)"
proof -
  let ?a = "Adam_init spec_ops (1/10) (1/10000) (9/10) (9/10) (1/100000000) 0 :: nat Adam"
  have r: "is_Returned (Adam_call ?a [1/2, 1] [0, 1] 1 (Some 0))"
    by (simp add: call_defs)
  have n: "(1::nat) = counter (Adam.nr_update ?a) (Some 0) + 1"
    by (simp add: Adam_init_def counter_def)
  have b: "Adam.b1 ?a = 9 / 10" "Adam.b2 ?a = 9 / 10" "Adam.alpha ?a = 1 / 10" "Adam.decay ?a = 0"
    by (simp_all add: Adam_init_def)
  have h1: "Adam.b1 ?a ^ (1::nat) \<noteq> 1" by (simp add: b)
  have h2: "Adam.b2 ?a ^ (1::nat) \<le> 1" by (simp add: b)
  from Adam_learning_rate[OF r n h1 h2] b(1,2)
  have "Adam_lr ?a 1 = Inr (Adam.alpha ?a / (1 + Adam.decay ?a) * sqrt 10)"
    by blast
  then have "Adam_lr ?a 1 = Inr (1 / 10 * sqrt 10)"
    by (simp only: b) simp
  with r n h1 h2 show ?thesis by blast
qed

lemma sum_sq_scale:
  "(\<Sum>x\<leftarrow>g. (x * c) * (x * c)) = c\<^sup>2 * (\<Sum>x\<leftarrow>g. x * x)" for c :: real
  by (induction g) (simp_all add: power2_eq_square algebra_simps)

lemma norm2_scale: "norm2 (map (\<lambda>x. x * c) g) = \<bar>c\<bar> * norm2 g"
  by (simp add: norm2_def o_def sum_sq_scale real_sqrt_mult)

lemma norm2_nonneg: "0 \<le> norm2 g"
proof -
  have "0 \<le> (\<Sum>x\<leftarrow>g. x * x)" by (induction g) simp_all
  then show ?thesis by (simp add: norm2_def)
qed

lemma spec_clip_bound:
  assumes "0 \<le> t" and "spec_clip_gradient g t = Inr g'"
  shows "norm2 g' \<le> t"
proof (cases "norm2 g > t")
  case True
  with assms(1) have pos: "0 < norm2 g" by simp
  from True assms(2) have "g' = map (\<lambda>x. x * (t / norm2 g)) g"
    by (simp add: spec_clip_gradient_def)
  then have "norm2 g' = \<bar>t / norm2 g\<bar> * norm2 g" by (simp only: norm2_scale)
  also have "\<dots> = t" using pos assms(1) by simp
  finally show ?thesis by simp
next
  case False
  with assms(2) show ?thesis by (auto simp: spec_clip_gradient_def)
qed

text \<open>
  Claim C8. In an Adam update that returns, on weights and gradient of one length, the
  gradient handed to the fused kernel is the gradient plus \<open>L2\<close> times the weights,
  elementwise, clipped afterwards at the ceiling \<open>length gradient / 100\<close>; with the
  clipping of the specification its norm does not exceed that ceiling. The weights after
  the call are those the kernel computes from it.
\<close>

theorem Adam_regularise_then_clip:
  assumes "is_Returned (Adam_call a w g lr_scale key)"
    and "length w = length g"
    and "clip_gradient (Adam.ops a) = spec_clip_gradient"
  shows "key \<noteq> None \<and> g \<noteq> [] \<and>
         (\<exists>g1 g2 m1 m2 lr out.
            g1 = map2 (\<lambda>x y. x + Adam.L2 a * y) g w \<and>
            spec_clip_gradient g1 (real (length g) / 100) = Inr g2 \<and>
            norm2 g2 \<le> real (length g) / 100 \<and>
            adam (Adam.ops a) w g2 m1 m2 (Adam.b1 a) (Adam.b1 a) (Adam.eps a) lr = Inr out \<and>
            weights_of (Adam_call a w g lr_scale key) = fst out)"
proof -
  from assms(1) obtain s' w' g' where r: "Adam_call a w g lr_scale key = Returned (s', w', g')"
    by (cases "Adam_call a w g lr_scale key") auto
  from Adam_call_Returned[OF r] obtain g1 g2 m1 m2 lr0 g3 m1' m2' where
    k: "key \<noteq> None" "g \<noteq> []" and
    g1: "np_inplace (+) g (map (\<lambda>x. Adam.L2 a * x) w) = Inr g1" and
    g2: "clip_gradient (Adam.ops a) g1 (real (length g1) / 100) = Inr g2" and
    ad: "adam (Adam.ops a) w g2 m1 m2 (Adam.b1 a) (Adam.b1 a) (Adam.eps a) (lr0 * lr_scale)
           = Inr (w', g3, m1', m2')"
    by auto
  from g1 assms(2) have g1': "g1 = map2 (\<lambda>x y. x + Adam.L2 a * y) g w"
    by (auto simp: np_inplace_def zip_map2 intro!: nth_equalityI)
  then have len: "length g1 = length g" using assms(2) by simp
  from g2 have cl: "spec_clip_gradient g1 (real (length g) / 100) = Inr g2"
    by (simp add: assms(3) len)
  from spec_clip_bound[OF _ cl] have nb: "norm2 g2 \<le> real (length g) / 100" by simp
  from ad have "weights_of (Adam_call a w g lr_scale key) = fst (w', g3, m1', m2')"
    by (simp add: r weights_of_def)
  with k g1' cl nb ad show ?thesis by blast
qed

theorem Adam_regularise_then_clip_witness:
  "is_Returned (Adam_call (Adam_init spec_ops (1/10) (1/10000) (9/10) (999/1000) (1/100000000) 0)
                  [1/2, 1] [0, 1] 1 (Some (0::nat))) \<and>
   length [1/2, 1 :: real] = length [0, 1 :: real] \<and>
   clip_gradient (Adam.ops
       (Adam_init spec_ops (1/10) (1/10000) (9/10) (999/1000) (1/100000000) 0 :: nat Adam))
     = spec_clip_gradient \<and>
   (\<exists>g2. spec_clip_gradient (map2 (\<lambda>x y. x + 1 / 10000 * y) [0, 1] [1/2, 1]) (2 / 100) = Inr g2 \<and>
         norm2 g2 \<le> 2 / 100)"
proof -
  let ?a = "Adam_init spec_ops (1/10) (1/10000) (9/10) (999/1000) (1/100000000) 0 :: nat Adam"
  have r: "is_Returned (Adam_call ?a [1/2, 1] [0, 1] 1 (Some 0))"
    by (simp add: call_defs)
  have l: "length [1/2, 1 :: real] = length [0, 1 :: real]" by simp
  have c: "clip_gradient (Adam.ops ?a) = spec_clip_gradient"
    by (simp add: Adam_init_def spec_ops_def)
  have e: "Adam.L2 ?a = 1 / 10000" "real (length [0, 1 :: real]) = 2"
    by (simp_all add: Adam_init_def)
  from Adam_regularise_then_clip[OF r l c]
  have "\<exists>g2. spec_clip_gradient (map2 (\<lambda>x y. x + Adam.L2 ?a * y) [0, 1] [1/2, 1])
                  (real (length [0, 1 :: real]) / 100) = Inr g2 \<and>
             norm2 g2 \<le> real (length [0, 1 :: real]) / 100"
    by blast
  then have "\<exists>g2. spec_clip_gradient (map2 (\<lambda>x y. x + 1 / 10000 * y) [0, 1] [1/2, 1]) (2 / 100) = Inr g2 \<and>
         norm2 g2 \<le> 2 / 100"
    by (simp only: e)
  with r l c show ?thesis by blast
qed

text \<open>
  Claim C2 asks for \<open>beta2\<close> as the decay of the second moment. Line 106 hands \<open>self.b1\<close>
  to the kernel in its place: with the constructor's defaults \<open>beta1 = 0.9\<close> and
  \<open>beta2 = 0.999\<close>, weights \<open>[0]\<close> and gradient \<open>[1]\<close> (clipped to \<open>[0.01]\<close>), the second
  moment after the first update is \<open>0.9 * 0 + 0.1 * 0.01\<^sup>2\<close>, not
  \<open>0.999 * 0 + 0.001 * 0.01\<^sup>2\<close>.
\<close>

theorem Adam_second_moment_uses_beta1:
  "is_Returned (Adam_call (Adam_init spec_ops (1/10) (1/10000) (9/10) (999/1000) (1/100000000) 0)
                  [0] [1] 1 (Some (0::nat))) \<and>
   mom2 (self_of (Adam_call
           (Adam_init spec_ops (1/10) (1/10000) (9/10) (999/1000) (1/100000000) 0)
           [0] [1] 1 (Some (0::nat)))) (Some 0) = Some [1 / 100000] \<and>
   [1 / 100000 :: real] \<noteq> [999 / 1000 * 0 + (1 - 999 / 1000) * (1 / 100)\<^sup>2]"
  by (simp add: call_defs self_of_def power2_eq_square)

section \<open>Eve's loss report\<close>

lemma Eve_get_c_value:
  assumes "lower_threshold e = 1 / 10" and "upper_threshold e = 10"
  shows "Eve_get_c e loss old_f =
           (if old_f = 0 then Inl ZeroDivisionError
            else Inr (if loss < old_f then 11 / 10 else 1 / 11))"
  using assms by (simp add: Eve_get_c_def py_div_def)

text \<open>
  Claim C3, as stated, fails: the two divisions are divisions of Python floats. After a
  first report of the loss \<open>1\<close>, the report of the loss \<open>0\<close> gives \<open>new_f = 0\<close>, the
  divisor \<open>min new_f old_f\<close> is zero, and the call raises with \<open>d\<close> and \<open>f\<close> as they were.
\<close>

theorem Eve_set_loss_counterexample:
  "Eve.f (state_of (Eve_set_loss (Eve_init (OptSGD (SGD_init spec_ops (1/10) 0 0 True :: nat SGD))) 1))
     = Some 1 \<and>
   Eve_set_loss (state_of (Eve_set_loss (Eve_init (OptSGD (SGD_init spec_ops (1/10) 0 0 True :: nat SGD))) 1)) 0
     = Raised ZeroDivisionError
         (state_of (Eve_set_loss (Eve_init (OptSGD (SGD_init spec_ops (1/10) 0 0 True :: nat SGD))) 1)) \<and>
   Some (1::real) \<noteq> Some (11 / 10 * 0)"
  by (simp add: Eve_set_loss_def Eve_get_c_def Eve_init_def py_div_def Let_def)

text \<open>
  Claim C3, amended. Let the baseline \<open>f\<close> be set, with the thresholds of the constructor.
  The factor \<open>c\<close> is \<open>lower_threshold + 1 = 1.1\<close> when \<open>loss < f\<close> and
  \<open>1 / (upper_threshold + 1)\<close> otherwise, and \<open>new_f = c * loss\<close>. When \<open>f\<close> and
  \<open>min new_f f\<close> are not zero the call returns with
  \<open>d + (1 - b3) * (\<bar>new_f - f\<bar> / min new_f f - d)\<close> for \<open>d\<close> and \<open>new_f\<close> for the baseline;
  otherwise it raises \<^verbatim>\<open>ZeroDivisionError\<close> and changes nothing.
\<close>

theorem Eve_set_loss_with_baseline:
  assumes "Eve.f e = Some old_f"
    and "lower_threshold e = 1 / 10"
    and "upper_threshold e = 10"
    and "c = (if loss < old_f then lower_threshold e + 1 else 1 / (upper_threshold e + 1))"
    and "new_f = c * loss"
  shows "(loss < old_f \<longrightarrow> c = 11 / 10) \<and>
         (\<not> loss < old_f \<longrightarrow> c = 1 / 11) \<and>
         Eve_set_loss e loss =
           (if old_f = 0 \<or> min new_f old_f = 0 then Raised ZeroDivisionError e
            else Returned (e\<lparr>Eve.d := Eve.d e
                                + (1 - b3 e) * (\<bar>new_f - old_f\<bar> / min new_f old_f - Eve.d e),
                             Eve.f := Some new_f\<rparr>))"
proof -
  from assms(2-4) have c: "c = (if loss < old_f then 11 / 10 else 1 / 11)"
    by simp
  show ?thesis
    using assms(1,5)
    by (simp add: Eve_set_loss_def Eve_get_c_value[OF assms(2,3)] py_div_def Let_def c)
qed

theorem Eve_set_loss_with_baseline_witness:
  "Eve.f (state_of (Eve_set_loss (Eve_init (OptSGD (SGD_init spec_ops (1/10) 0 0 True :: nat SGD))) 2))
     = Some 2 \<and>
   Eve.d (state_of (Eve_set_loss
      (state_of (Eve_set_loss (Eve_init (OptSGD (SGD_init spec_ops (1/10) 0 0 True :: nat SGD))) 2)) 1))
     = 1 + (1 - 999 / 1000) * (\<bar>11 / 10 - 2\<bar> / (11 / 10) - 1) \<and>
   Eve.f (state_of (Eve_set_loss
      (state_of (Eve_set_loss (Eve_init (OptSGD (SGD_init spec_ops (1/10) 0 0 True :: nat SGD))) 2)) 1))
     = Some (11 / 10)"
proof -
  let ?e = "state_of (Eve_set_loss (Eve_init (OptSGD (SGD_init spec_ops (1/10) 0 0 True :: nat SGD))) 2)
              :: nat Eve"
  have h: "Eve.f ?e = Some 2" "lower_threshold ?e = 1 / 10" "upper_threshold ?e = 10"
    "Eve.d ?e = 1" "b3 ?e = 999 / 1000"
    by (simp_all add: Eve_set_loss_def Eve_init_def)
  have c: "(11 / 10 :: real) = (if (1::real) < 2 then lower_threshold ?e + 1
                                 else 1 / (upper_threshold ?e + 1))"
    by (simp add: h)
  have n: "(11 / 10 :: real) = 11 / 10 * 1" by simp
  from Eve_set_loss_with_baseline[OF h(1) h(2) h(3) c n]
  have "Eve_set_loss ?e 1 =
          Returned (?e\<lparr>Eve.d := Eve.d ?e
                       + (1 - b3 ?e) * (\<bar>11 / 10 - 2\<bar> / min (11 / 10) 2 - Eve.d ?e),
                     Eve.f := Some (11 / 10)\<rparr>)"
    by simp
  then have "Eve.d (state_of (Eve_set_loss ?e 1))
               = 1 + (1 - 999 / 1000) * (\<bar>11 / 10 - 2\<bar> / (11 / 10) - 1)"
    and "Eve.f (state_of (Eve_set_loss ?e 1)) = Some (11 / 10)"
    by (simp_all add: h)
  with h(1) show ?thesis by blast
qed

end
